theory Spec2Isabelle
  imports Complex_Main
begin

section \<open>The 3D tolerance ring viewer (js/ring3d.js)\<close>

text \<open>
  The file has two functions: \<open>create3DRingViewer\<close>, which builds a scene around an
  extruded, wave-perturbed ring profile inside a container element, and
  \<open>generateRing3D\<close>, which returns placeholder markup and defers the construction of
  the viewer by a timer.

  A JavaScript Number is modelled as a \<open>real\<close>: arithmetic, \<open>Math.sin\<close>, \<open>Math.cos\<close> and
  \<open>Math.PI\<close> are the exact operations, and the rounding of IEEE doubles, \<open>NaN\<close> and the
  infinities are outside the model. A division whose divisor is zero is therefore not
  what the program computes there (\<open>x / 0 = 0\<close> in HOL); the statements below stay away
  from a zero wave count, and none reads the camera's aspect ratio.
  An optional parameter is an \<open>option\<close>: \<open>None\<close> is the argument left out.
\<close>

subsection \<open>The document\<close>

datatype node =
    Markup string
  | RendererCanvas real real
  | InfoDiv string real real real real

text \<open>
  \<open>RendererCanvas w h\<close> is the renderer's \<open>domElement\<close> at the size given to \<open>setSize\<close>.
  \<open>InfoDiv partNumber bore width thickness waves\<close> is the overlay with its absolute
  position and fixed styling; it keeps the five interpolated values of its
  \<open>innerHTML\<close> template instead of their rendering as text.
\<close>

record element =
  clientWidth :: real
  clientHeight :: real
  style_position :: string
  childNodes :: "node list"

record world =
  document :: "string \<rightharpoonup> element"
  resizeListeners :: "string list"
  frameRequests :: nat

text \<open>
  \<open>document w cid\<close> is \<open>document.getElementById(cid)\<close>, \<open>None\<close> for \<open>null\<close>;
  \<open>resizeListeners\<close> lists the containers whose viewer listens to the window's
  \<open>resize\<close> event, and \<open>frameRequests\<close> counts the calls of \<open>requestAnimationFrame\<close>.
\<close>

subsection \<open>The objects of the graphics library\<close>

type_synonym color = nat
type_synonym vector3 = "real \<times> real \<times> real"

datatype path_cmd = MoveTo real real | LineTo real real

text \<open>\<open>Absarc x y radius startAngle endAngle clockwise\<close>, a circular arc as a path.\<close>

datatype arc = Absarc real real (arc_radius: real) real real bool

record shape =
  curves :: "path_cmd list"
  holes :: "arc list"

definition new_Shape :: shape where
  "new_Shape = \<lparr>curves = [], holes = []\<rparr>"

definition moveTo :: "shape \<Rightarrow> real \<Rightarrow> real \<Rightarrow> shape" where
  "moveTo sh x y = sh\<lparr>curves := curves sh @ [MoveTo x y]\<rparr>"

definition lineTo :: "shape \<Rightarrow> real \<Rightarrow> real \<Rightarrow> shape" where
  "lineTo sh x y = sh\<lparr>curves := curves sh @ [LineTo x y]\<rparr>"

fun cmd_point :: "path_cmd \<Rightarrow> real \<times> real" where
  "cmd_point (MoveTo x y) = (x, y)"
| "cmd_point (LineTo x y) = (x, y)"

definition path_points :: "shape \<Rightarrow> (real \<times> real) list" where
  "path_points sh = map cmd_point (curves sh)"

record extrude_settings =
  depth :: real
  bevelEnabled :: bool
  bevelThickness :: real
  bevelSize :: real
  bevelSegments :: nat
  steps :: nat

datatype geometry =
    ExtrudeGeometry (extruded: shape) extrude_settings
  | EdgesGeometry geometry

datatype side = FrontSide | BackSide | DoubleSide

datatype material =
    MeshPhongMaterial color color real real real side
  | LineBasicMaterial color real

text \<open>
  \<open>MeshPhongMaterial color specular shininess metalness roughness side\<close>,
  \<open>LineBasicMaterial color linewidth\<close>;
  \<open>Mesh geometry material rotation_x castShadow receiveShadow\<close>,
  \<open>LineSegments geometry material rotation_x\<close>,
  \<open>DirectionalLight color intensity position castShadow\<close>,
  \<open>GridHelper size divisions colorCenterLine colorGrid\<close>.
\<close>

datatype object3d =
    AmbientLight color real
  | DirectionalLight color real vector3 bool
  | Mesh (mesh_geometry: geometry) material real bool bool
  | LineSegments geometry material real
  | GridHelper real nat color color
  | AxesHelper real

record scene3d =
  background :: color
  children :: "object3d list"

definition scene_add :: "scene3d \<Rightarrow> object3d \<Rightarrow> scene3d" where
  "scene_add sc ob = sc\<lparr>children := children sc @ [ob]\<rparr>"

record perspective_camera =
  fov :: real
  aspect :: real
  near :: real
  far :: real
  cam_position :: vector3
  cam_lookAt :: "vector3 option"

record webgl_renderer =
  antialias :: bool
  canvas_size :: "real \<times> real"
  shadowMap_enabled :: bool

record orbit_controls =
  enableDamping :: bool
  dampingFactor :: real
  screenSpacePanning :: bool
  minDistance :: real
  maxDistance :: real

text \<open>
  The export action is a closure over the ring mesh and the part number. Called, it
  hands the mesh to the library's STL exporter and offers the text for download under
  the name \<open>partNumber\<close> followed by \<open>.stl\<close>; the record keeps what the closure captures.
\<close>

record stl_export =
  stl_object :: object3d
  stl_download :: string

record viewer =
  scene :: scene3d
  camera :: perspective_camera
  renderer :: webgl_renderer
  controls :: orbit_controls
  exportSTL :: stl_export

subsection \<open>The outer edge with waves\<close>

definition waveAmplitude :: real where
  "waveAmplitude = 0.5"

definition angle :: "real \<Rightarrow> nat \<Rightarrow> real" where
  "angle waves i = (real i / waves) * pi * 2"

definition radius :: "real \<Rightarrow> nat \<Rightarrow> real" where
  "radius outerRadius i = outerRadius + (sin (real i * 2) * waveAmplitude)"

definition edge_step :: "real \<Rightarrow> real \<Rightarrow> nat \<Rightarrow> shape \<Rightarrow> shape" where
  "edge_step outerRadius waves i sh =
     (let x = cos (angle waves i) * radius outerRadius i;
          y = sin (angle waves i) * radius outerRadius i
      in if i = 0 then moveTo sh x y else lineTo sh x y)"

text \<open>
  The loop \<open>for (let i = 0; i <= waves; i++)\<close>: the counter is a natural number, the
  bound any number.
\<close>

function outer_edge :: "real \<Rightarrow> real \<Rightarrow> nat \<Rightarrow> shape \<Rightarrow> shape" where
  "outer_edge outerRadius waves i sh =
     (if real i \<le> waves
      then outer_edge outerRadius waves (Suc i) (edge_step outerRadius waves i sh)
      else sh)"
  by pat_completeness auto
termination
proof (relation "measure (\<lambda>(outerRadius, waves, i, sh). nat \<lfloor>waves\<rfloor> + 1 - i)")
  show "wf (measure (\<lambda>(outerRadius, waves, i, sh). nat \<lfloor>waves\<rfloor> + 1 - i))"
    by simp
next
  fix outerRadius waves :: real and i :: nat and sh :: shape
  assume le: "real i \<le> waves"
  then have "int i \<le> \<lfloor>waves\<rfloor>"
    by (simp add: le_floor_iff)
  then have "i \<le> nat \<lfloor>waves\<rfloor>"
    by linarith
  then show "((outerRadius, waves, Suc i, edge_step outerRadius waves i sh),
              (outerRadius, waves, i, sh))
             \<in> measure (\<lambda>(outerRadius, waves, i, sh). nat \<lfloor>waves\<rfloor> + 1 - i)"
    by simp
qed

text \<open>
  The sampling of the perturbed boundary as a function of the base radius and the wave
  count: the points of the path that the loop draws on a fresh shape.
\<close>

definition boundary_points :: "real \<Rightarrow> nat \<Rightarrow> (real \<times> real) list" where
  "boundary_points R W = path_points (outer_edge R (real W) 0 new_Shape)"

subsection \<open>create3DRingViewer\<close>

text \<open>
  The function reads the container, returns nothing when there is none, and otherwise
  builds the scene statement by statement, appends the canvas and the overlay to the
  container, asks for one animation frame, registers the resize listener and returns
  the handles. The state is passed explicitly: the result is the returned value
  (\<open>None\<close> for \<open>undefined\<close>) and the world after the call.
\<close>

definition create3DRingViewer ::
  "world \<Rightarrow> string \<Rightarrow> string \<Rightarrow> real \<Rightarrow> real \<Rightarrow> real option \<Rightarrow> real option
     \<Rightarrow> viewer option \<times> world" where
  "create3DRingViewer w containerId partNumber bore width thickness_arg waves_arg =
     (let thickness = (case thickness_arg of None \<Rightarrow> 0.203 | Some t \<Rightarrow> t);
          waves = (case waves_arg of None \<Rightarrow> 16 | Some n \<Rightarrow> n)
      in case document w containerId of
           None \<Rightarrow> (None, w)
         | Some container \<Rightarrow>
            (let scene0 = \<lparr>background = 0xf8f9fa, children = []\<rparr>;
                 aspect0 = clientWidth container / clientHeight container;
                 camera0 = \<lparr>fov = 45, aspect = aspect0, near = 0.1, far = 1000,
                            cam_position = (0, 0, 0), cam_lookAt = None\<rparr>;
                 renderer0 = \<lparr>antialias = True,
                              canvas_size = (clientWidth container, clientHeight container),
                              shadowMap_enabled = True\<rparr>;
                 container1 = container\<lparr>childNodes := childNodes container
                                @ [RendererCanvas (clientWidth container) (clientHeight container)]\<rparr>;
                 ambientLight = AmbientLight 0xffffff 0.6;
                 scene1 = scene_add scene0 ambientLight;
                 directionalLight = DirectionalLight 0xffffff 0.4 (50, 50, 50) True;
                 scene2 = scene_add scene1 directionalLight;
                 outerRadius = bore / 2;
                 innerRadius = outerRadius - thickness;
                 height = width;
                 shape1 = outer_edge outerRadius waves 0 new_Shape;
                 holePath = Absarc 0 0 innerRadius 0 (pi * 2) True;
                 shape2 = shape1\<lparr>holes := holes shape1 @ [holePath]\<rparr>;
                 extrudeSettings = \<lparr>depth = height, bevelEnabled = True, bevelThickness = 0.1,
                                    bevelSize = 0.1, bevelSegments = 2, steps = 2\<rparr>;
                 geometry0 = ExtrudeGeometry shape2 extrudeSettings;
                 material0 = MeshPhongMaterial 0xaaaaaa 0xffffff 100 0.8 0.2 DoubleSide;
                 ring = Mesh geometry0 material0 (- pi / 2) True True;
                 scene3 = scene_add scene2 ring;
                 edges = EdgesGeometry geometry0;
                 edgesMaterial = LineBasicMaterial 0x333333 1;
                 edgesMesh = LineSegments edges edgesMaterial (- pi / 2);
                 scene4 = scene_add scene3 edgesMesh;
                 camera1 = camera0\<lparr>cam_position := (bore * 1.5, bore * 1.5, bore * 1.5),
                                   cam_lookAt := Some (0, 0, 0)\<rparr>;
                 controls0 = \<lparr>enableDamping = True, dampingFactor = 0.05,
                              screenSpacePanning = False,
                              minDistance = bore / 2, maxDistance = bore * 5\<rparr>;
                 gridHelper = GridHelper (bore * 2) 20 0x888888 0xcccccc;
                 scene5 = scene_add scene4 gridHelper;
                 axesHelper = AxesHelper bore;
                 scene6 = scene_add scene5 axesHelper;
                 infoDiv = InfoDiv partNumber bore width thickness waves;
                 container2 = container1\<lparr>style_position := ''relative'',
                                childNodes := childNodes container1 @ [infoDiv]\<rparr>
             in (Some \<lparr>scene = scene6, camera = camera1, renderer = renderer0,
                       controls = controls0,
                       exportSTL = \<lparr>stl_object = ring, stl_download = partNumber @ ''.stl''\<rparr>\<rparr>,
                 w\<lparr>document := (document w)(containerId \<mapsto> container2),
                   resizeListeners := resizeListeners w @ [containerId],
                   frameRequests := frameRequests w + 1\<rparr>)))"

text \<open>
  The ring is the third object added to the scene; its geometry extrudes the profile:
  the wavy outer path and the holes cut out of it.
\<close>

definition ring_profile :: "viewer \<Rightarrow> shape" where
  "ring_profile v = extruded (mesh_geometry (children (scene v) ! 2))"

definition hole_radii :: "viewer \<Rightarrow> real list" where
  "hole_radii v = map arc_radius (holes (ring_profile v))"

subsection \<open>generateRing3D\<close>

text \<open>
  \<open>string_of_nat\<close> is the decimal text of \<open>Date.now()\<close> in the template literal.
\<close>

fun string_of_nat :: "nat \<Rightarrow> string" where
  "string_of_nat n =
     (if n < 10 then [char_of (48 + n)]
      else string_of_nat (n div 10) @ [char_of (48 + n mod 10)])"

text \<open>
  The arrow function given to \<open>setTimeout\<close> is the call of \<open>create3DRingViewer\<close> with
  the four arguments it captures; the record keeps them, with \<open>None\<close> for the two
  parameters the call leaves out. \<open>invoke\<close> evaluates that call in the world in which
  the timer fires; the arrow function itself drops the returned handles.
\<close>

record viewer_call =
  arg_containerId :: string
  arg_partNumber :: string
  arg_bore :: real
  arg_width :: real
  arg_thickness :: "real option"
  arg_waves :: "real option"

record timer =
  callback :: viewer_call
  delay :: nat

definition invoke :: "world \<Rightarrow> viewer_call \<Rightarrow> viewer option \<times> world" where
  "invoke w c =
     create3DRingViewer w (arg_containerId c) (arg_partNumber c) (arg_bore c) (arg_width c)
       (arg_thickness c) (arg_waves c)"

definition newline :: string where
  "newline = [CHR 0x0A]"

text \<open>
  \<open>generateRing3D now partNumber bore width\<close>, where \<open>now\<close> is the value of
  \<open>Date.now()\<close>, gives the markup it returns and the timer it sets.
\<close>

definition generateRing3D :: "nat \<Rightarrow> string \<Rightarrow> real \<Rightarrow> real \<Rightarrow> string \<times> timer" where
  \<open>generateRing3D now partNumber bore width =
     (let containerId = ''ring3d-'' @ string_of_nat now;
          html = newline
            @ ''        <div id="'' @ containerId
            @ ''" style="width: 100%; height: 400px; background: #f8f9fa; border-radius: 8px; margin: 20px 0;">''
            @ newline
            @ ''            <div style="text-align: center; padding: 180px 20px; color: #666;">''
            @ newline
            @ ''                <i class="fas fa-cube fa-3x mb-3"></i><br>''
            @ newline
            @ ''                Loading 3D Model...''
            @ newline
            @ ''            </div>''
            @ newline
            @ ''        </div>''
            @ newline
            @ ''    ''
      in (html,
          \<lparr>callback = \<lparr>arg_containerId = containerId, arg_partNumber = partNumber,
                        arg_bore = bore, arg_width = width,
                        arg_thickness = None, arg_waves = None\<rparr>,
           delay = 100\<rparr>))\<close>

subsection \<open>A page for the concrete instances\<close>

text \<open>
  A page whose only element with an id is an empty container of 800 by 400 pixels, the
  one that \<open>generateRing3D\<close> names when the clock reads 42.
\<close>

definition page :: world where
  "page = \<lparr>document = [''ring3d-42'' \<mapsto>
              \<lparr>clientWidth = 800, clientHeight = 400, style_position = [], childNodes = []\<rparr>],
            resizeListeners = [], frameRequests = 0\<rparr>"

declare outer_edge.simps [simp del]

declare string_of_nat.simps [simp del]

section \<open>The loop\<close>

lemma edge_step_points:
  "path_points (edge_step R w i sh) =
     path_points sh @ [(cos (angle w i) * radius R i, sin (angle w i) * radius R i)]"
  by (simp add: edge_step_def path_points_def moveTo_def lineTo_def Let_def)

lemma edge_step_holes: "holes (edge_step R w i sh) = holes sh"
  by (simp add: edge_step_def moveTo_def lineTo_def Let_def)

text \<open>The loop draws the outer path only: the holes of the shape stay as they are.\<close>

lemma outer_edge_holes: "holes (outer_edge R w i sh) = holes sh"
proof (induction R w i sh rule: outer_edge.induct)
  case (1 R w i sh)
  show ?case
  proof (cases "real i \<le> w")
    case True
    with 1 show ?thesis
      by (subst outer_edge.simps) (simp add: edge_step_holes)
  next
    case False
    then show ?thesis
      by (subst outer_edge.simps) simp
  qed
qed

text \<open>
  With a whole wave count \<open>W\<close>, the loop entered at \<open>i\<close> appends one point for each
  index from \<open>i\<close> to \<open>W\<close>, in order.
\<close>

lemma outer_edge_points:
  "i \<le> Suc W \<Longrightarrow>
   path_points (outer_edge R (real W) i sh) =
     path_points sh
     @ map (\<lambda>k. (cos (angle (real W) k) * radius R k, sin (angle (real W) k) * radius R k))
         [i..<Suc W]"
proof (induction "Suc W - i" arbitrary: i sh)
  case 0
  then have "i = Suc W" by simp
  then show ?case
    by (subst outer_edge.simps) simp
next
  case (Suc n)
  then have le: "i \<le> W" and n: "n = Suc W - Suc i" and le': "Suc i \<le> Suc W"
    by simp_all
  have "path_points (outer_edge R (real W) i sh) =
        path_points (outer_edge R (real W) (Suc i) (edge_step R (real W) i sh))"
    using le by (subst outer_edge.simps) simp
  also have "\<dots> = path_points (edge_step R (real W) i sh)
     @ map (\<lambda>k. (cos (angle (real W) k) * radius R k, sin (angle (real W) k) * radius R k))
         [Suc i..<Suc W]"
    using Suc.hyps(1) [OF n le'] .
  also have "\<dots> = path_points sh
     @ map (\<lambda>k. (cos (angle (real W) k) * radius R k, sin (angle (real W) k) * radius R k))
         [i..<Suc W]"
    using le by (simp add: edge_step_points upt_conv_Cons del: upt_Suc)
  finally show ?case .
qed

lemma boundary_points_eq:
  "boundary_points R W =
     map (\<lambda>k. (cos (angle (real W) k) * radius R k, sin (angle (real W) k) * radius R k))
       [0..<Suc W]"
  unfolding boundary_points_def
  by (subst outer_edge_points) (simp_all add: path_points_def new_Shape_def)

lemma boundary_points_nth:
  "i \<le> W \<Longrightarrow> boundary_points R W ! i =
     (cos (angle (real W) i) * radius R i, sin (angle (real W) i) * radius R i)"
  unfolding boundary_points_eq
  using nth_map_upt [of i "Suc W" 0] by simp

lemma angle_eq: "angle (real W) i = 2 * pi * real i / real W"
  by (simp add: angle_def mult_ac)

lemma radius_eq: "radius R i = R + 0.5 * sin (2 * real i)"
  by (simp add: radius_def waveAmplitude_def mult_ac)

text \<open>
  Bounds on the sines that the perturbation meets at the first indices:
  \<open>cos 1 = 1 - 2 sin\<^sup>2 (1/2) \<ge> 1/2\<close>, \<open>sin 1 \<ge> 19/24\<close> from the series of the sine, and by
  the double-angle formulas \<open>sin 2 > 0\<close> and \<open>sin 4 \<le> - 2/5\<close>.
\<close>

lemma cos_one_lower: "1 / 2 \<le> cos (1::real)"
proof -
  have h0: "0 < sin (1/2::real)" by (rule sin_gt_zero_02) simp_all
  have h1: "sin (1/2::real) \<le> 1/2" by (rule sin_x_le_x) simp
  have "(sin (1/2::real))\<^sup>2 \<le> (1/2)\<^sup>2"
    using h0 h1 by (intro power_mono) simp_all
  then have "(sin (1/2::real))\<^sup>2 \<le> 1/4" by (simp add: power2_eq_square)
  moreover have "cos (1::real) = 1 - 2 * (sin (1/2))\<^sup>2"
    using cos_double_sin [of "1/2::real"] by simp
  ultimately show ?thesis by simp
qed

lemma sin_one_lower: "19 / 24 \<le> sin (1::real)"
proof -
  have "(\<Sum>m<4. sin_coeff m * (1::real) ^ m)
          = sin_coeff 0 + sin_coeff 1 + sin_coeff 2 + sin_coeff 3"
    by (simp add: eval_nat_numeral)
  also have "\<dots> = 5 / 6"
    by (simp add: sin_coeff_def fact_numeral)
  finally have s: "(\<Sum>m<4. sin_coeff m * (1::real) ^ m) = 5 / 6" .
  have "\<bar>sin (1::real) - (\<Sum>m<4. sin_coeff m * 1 ^ m)\<bar> \<le> inverse (fact 4) * \<bar>1\<bar> ^ 4"
    by (rule Maclaurin_sin_bound)
  then have "\<bar>sin (1::real) - 5 / 6\<bar> \<le> 1 / 24"
    unfolding s by (simp add: eval_nat_numeral)
  then show ?thesis by linarith
qed

lemma sin_two_lower: "19 / 24 \<le> sin (2::real)"
proof -
  have "19 / 24 * (1 / 2) \<le> sin (1::real) * cos 1"
    using sin_one_lower cos_one_lower by (intro mult_mono) simp_all
  moreover have "sin (2::real) = 2 * sin 1 * cos 1"
    using sin_double [of "1::real"] by simp
  ultimately show ?thesis by simp
qed

lemma sin_two_pos: "0 < sin (2::real)"
  using sin_two_lower by simp

lemma sin_four_upper: "sin (4::real) \<le> - (2 / 5)"
proof -
  have "(19 / 24)\<^sup>2 \<le> (sin (1::real))\<^sup>2"
    using sin_one_lower by (intro power_mono) simp_all
  moreover have "cos (2::real) = 1 - 2 * (sin 1)\<^sup>2"
    using cos_double_sin [of "1::real"] by simp
  ultimately have c2: "146 / 576 \<le> - cos (2::real)"
    by (simp add: power2_eq_square)
  have "19 / 24 * (146 / 576) \<le> sin (2::real) * (- cos 2)"
    using sin_two_lower c2 by (intro mult_mono) simp_all
  moreover have "sin (4::real) = 2 * sin 2 * cos 2"
    using sin_double [of "2::real"] by simp
  ultimately show ?thesis by simp
qed

text \<open>
  Above a base radius of 0.5 the perturbation of at most 0.5 leaves every radius
  positive.
\<close>

lemma radius_pos: "0.5 < R \<Longrightarrow> 0 < radius R i"
proof -
  assume "0.5 < R"
  moreover have "- 1 \<le> sin (real i * 2)" by simp
  ultimately show ?thesis
    unfolding radius_def waveAmplitude_def by linarith
qed

section \<open>The sampled boundary\<close>

text \<open>
  C1. For a wave count \<open>W \<ge> 1\<close> and a base outer radius \<open>R > 0\<close>, the point sampled at each
  index \<open>i\<close> from 0 to \<open>W\<close> is the polar-to-Cartesian conversion of the angle \<open>2\<pi>i/W\<close> and
  the perturbed radius \<open>R + 0.5 sin(2i)\<close>.
\<close>

theorem boundary_point_polar:
  assumes "1 \<le> W" and "0 < R" and "i \<le> W"
  shows "boundary_points R W ! i =
     (cos (2 * pi * real i / real W) * (R + 0.5 * sin (2 * real i)),
      sin (2 * pi * real i / real W) * (R + 0.5 * sin (2 * real i)))"
  using assms(3) by (simp only: boundary_points_nth angle_eq radius_eq)

theorem boundary_point_polar_witness:
  "1 \<le> (4::nat) \<and> 0 < (5::real) \<and> (2::nat) \<le> 4
   \<and> boundary_points 5 4 ! 2 = (- (5 + sin 4 / 2), 0)"
  using boundary_point_polar [of 4 5 2] by simp

text \<open>
  C2. For a wave count \<open>W \<ge> 1\<close> and a radius \<open>R > 0\<close>, the sampling produces exactly
  \<open>W + 1\<close> points.
\<close>

theorem boundary_points_count:
  assumes "1 \<le> W" and "0 < R"
  shows "length (boundary_points R W) = W + 1"
  by (simp add: boundary_points_eq)

theorem boundary_points_count_witness:
  "1 \<le> (16::nat) \<and> 0 < (5::real) \<and> length (boundary_points 5 16) = 17"
  using boundary_points_count [of 16 5] by simp

text \<open>
  C3. For \<open>W \<ge> 1\<close>, \<open>R > 0\<close> and an index \<open>i\<close> from 0 to \<open>W\<close>, the \<open>i\<close>-th point \<open>(x, y)\<close>
  satisfies \<open>x\<^sup>2 + y\<^sup>2 = (R + 0.5 sin(2i))\<^sup>2\<close>.
\<close>

theorem boundary_point_squared_distance:
  assumes "1 \<le> W" and "0 < R" and "i \<le> W"
  shows "(fst (boundary_points R W ! i))\<^sup>2 + (snd (boundary_points R W ! i))\<^sup>2
         = (R + 0.5 * sin (2 * real i))\<^sup>2"
proof -
  have "(cos (angle (real W) i) * radius R i)\<^sup>2 + (sin (angle (real W) i) * radius R i)\<^sup>2
        = ((cos (angle (real W) i))\<^sup>2 + (sin (angle (real W) i))\<^sup>2) * (radius R i)\<^sup>2"
    by (simp only: power_mult_distrib distrib_right)
  also have "\<dots> = (radius R i)\<^sup>2" by simp
  finally show ?thesis
    using assms(3) by (simp add: boundary_points_nth radius_eq)
qed

theorem boundary_point_squared_distance_witness:
  "1 \<le> (16::nat) \<and> 0 < (5::real) \<and> (3::nat) \<le> 16
   \<and> (fst (boundary_points 5 16 ! 3))\<^sup>2 + (snd (boundary_points 5 16 ! 3))\<^sup>2
       = (5 + 0.5 * sin 6)\<^sup>2"
  using boundary_point_squared_distance [of 16 5 3] by simp

text \<open>
  C4, as stated: the last sampled point (index \<open>W\<close>) equals the first (index 0). It does
  not: with one wave on the unit radius the path starts at \<open>(1, 0)\<close> and ends at
  \<open>(1 + sin 2 / 2, 0)\<close>.
\<close>

theorem last_point_differs_from_first:
  "boundary_points 1 1 = [(1, 0), (1 + sin 2 / 2, 0)]
   \<and> boundary_points 1 1 ! 1 \<noteq> boundary_points 1 1 ! 0"
  using sin_two_pos
  by (simp add: boundary_points_eq angle_def radius_def waveAmplitude_def)

text \<open>
  C4, amended. For \<open>W \<ge> 1\<close> and \<open>R > 0\<close> the first point is \<open>(R, 0)\<close> and the last point is
  \<open>(R + 0.5 sin(2W), 0)\<close>: both lie on the x-axis, the last at the radius perturbed for
  the index \<open>W\<close>, and the two points coincide exactly when \<open>sin(2W) = 0\<close>. When
  \<open>R > 0.5\<close> the last point lies on the positive half of the axis, as the first does.
\<close>

theorem boundary_end_points:
  assumes "1 \<le> W" and "0 < R"
  shows "boundary_points R W ! 0 = (R, 0)
       \<and> boundary_points R W ! W = (R + 0.5 * sin (2 * real W), 0)
       \<and> (boundary_points R W ! W = boundary_points R W ! 0 \<longleftrightarrow> sin (2 * real W) = 0)
       \<and> (0.5 < R \<longrightarrow> 0 < fst (boundary_points R W ! W))"
proof -
  have e: "boundary_points R W ! 0 = (R, 0)
       \<and> boundary_points R W ! W = (R + 0.5 * sin (2 * real W), 0)
       \<and> (boundary_points R W ! W = boundary_points R W ! 0 \<longleftrightarrow> sin (2 * real W) = 0)"
    using assms
    by (simp add: boundary_points_nth angle_def radius_def waveAmplitude_def mult.commute)
  have "0 < R + 0.5 * sin (2 * real W)" if "0.5 < R"
    using radius_pos [OF that, of W] by (simp add: radius_eq)
  with e show ?thesis by simp
qed

theorem boundary_end_points_witness:
  "1 \<le> (1::nat) \<and> 0 < (1::real) \<and> (0.5::real) < 1
   \<and> boundary_points 1 1 ! 0 = (1, 0)
   \<and> boundary_points 1 1 ! 1 = (1 + 0.5 * sin 2, 0)
   \<and> 0 < fst (boundary_points 1 1 ! 1)"
  using boundary_end_points [of 1 1] by auto

text \<open>
  C10, as stated: for every wave count the sampled points follow the strictly
  increasing angles \<open>2\<pi>i/W\<close>, so that the sweep goes round the circle once in order. It
  does not for a small radius: with two waves around the radius 0.1 the loop's angles
  at the indices 1 and 2 are \<open>\<pi>\<close> and \<open>2\<pi>\<close>, but the radius perturbed at the index 2,
  \<open>0.1 + 0.5 sin 4\<close>, is negative, and both points lie on the negative half of the
  x-axis.
\<close>

theorem sampled_points_out_of_order:
  "angle 2 1 < angle 2 2
   \<and> snd (boundary_points 0.1 2 ! 1) = 0 \<and> fst (boundary_points 0.1 2 ! 1) < 0
   \<and> snd (boundary_points 0.1 2 ! 2) = 0 \<and> fst (boundary_points 0.1 2 ! 2) < 0"
proof -
  have a: "angle 2 1 = pi" "angle 2 (Suc 0) = pi" "angle 2 2 = 2 * pi"
    by (simp_all add: angle_def)
  have p1: "boundary_points 0.1 2 ! 1 = (- (0.1 + 0.5 * sin 2), 0)"
    using boundary_points_nth [of 1 2 "0.1"] by (simp add: a radius_eq)
  have p2: "boundary_points 0.1 2 ! 2 = (0.1 + 0.5 * sin 4, 0)"
    using boundary_points_nth [of 2 2 "0.1"] by (simp add: a radius_eq)
  have "0 < (0.1::real) + 0.5 * sin 2" using sin_two_pos by simp
  moreover have "(0.1::real) + 0.5 * sin 4 < 0" using sin_four_upper by simp
  ultimately show ?thesis
    using p1 p2 by (simp add: a)
qed

text \<open>
  C10, amended. For a wave count \<open>W \<ge> 1\<close> the angle of the loop, \<open>2\<pi>i/W\<close>, is strictly
  increasing in the index, from 0 at \<open>i = 0\<close> to \<open>2\<pi>\<close> at \<open>i = W\<close>, and the point sampled
  at each index \<open>i\<close> from 0 to \<open>W\<close> is the perturbed radius of that index times the cosine
  and the sine of that angle. When \<open>R > 0.5\<close> every perturbed radius is positive, so
  each point lies in the direction of its angle and the sweep goes round the circle
  once in order.
\<close>

theorem sampled_points_follow_angles:
  assumes "1 \<le> W"
  shows "angle (real W) 0 = 0 \<and> angle (real W) W = 2 * pi
     \<and> (\<forall>i j. i < j \<and> j \<le> W \<longrightarrow> angle (real W) i < angle (real W) j)
     \<and> (\<forall>i. i \<le> W \<longrightarrow> boundary_points R W ! i =
            (cos (angle (real W) i) * radius R i, sin (angle (real W) i) * radius R i))
     \<and> (0.5 < R \<longrightarrow> (\<forall>i. 0 < radius R i))"
proof -
  have "angle (real W) 0 = 0 \<and> angle (real W) W = 2 * pi
     \<and> (\<forall>i j. i < j \<and> j \<le> W \<longrightarrow> angle (real W) i < angle (real W) j)"
    using assms by (simp add: angle_def divide_strict_right_mono)
  then show ?thesis
    by (simp add: boundary_points_nth radius_pos)
qed

theorem sampled_points_follow_angles_witness:
  "1 \<le> (4::nat) \<and> (1::nat) < 2 \<and> (2::nat) \<le> 4 \<and> (0.5::real) < 5
   \<and> angle 4 0 = 0 \<and> angle 4 4 = 2 * pi \<and> angle 4 1 < angle 4 2
   \<and> boundary_points 5 4 ! 2 = (cos (angle 4 2) * radius 5 2, sin (angle 4 2) * radius 5 2)
   \<and> 0 < radius 5 2"
proof -
  have facts: "angle (real 4) 0 = 0 \<and> angle (real 4) 4 = 2 * pi
     \<and> (\<forall>i j. i < j \<and> j \<le> 4 \<longrightarrow> angle (real 4) i < angle (real 4) j)
     \<and> (\<forall>i. i \<le> 4 \<longrightarrow> boundary_points 5 4 ! i =
            (cos (angle (real 4) i) * radius 5 i, sin (angle (real 4) i) * radius 5 i))
     \<and> (0.5 < (5::real) \<longrightarrow> (\<forall>i. 0 < radius 5 i))"
    using sampled_points_follow_angles [of 4 5] by simp
  then have "(1::nat) < 2 \<and> (2::nat) \<le> 4 \<longrightarrow> angle (real 4) 1 < angle (real 4) 2"
    by blast
  moreover from facts have "(2::nat) \<le> 4 \<longrightarrow> boundary_points 5 4 ! 2 =
            (cos (angle (real 4) 2) * radius 5 2, sin (angle (real 4) 2) * radius 5 2)"
    by blast
  moreover from facts have "0 < radius 5 2" by simp
  ultimately show ?thesis using facts by simp
qed

section \<open>The viewer\<close>

lemma viewer_None:
  "document w cid = None \<Longrightarrow> create3DRingViewer w cid pn b wd t wv = (None, w)"
  by (simp add: create3DRingViewer_def)

lemma viewer_result_None_iff:
  "fst (create3DRingViewer w cid pn b wd t wv) = None \<longleftrightarrow> document w cid = None"
  by (simp add: create3DRingViewer_def Let_def split: option.split)

text \<open>
  The profile of the ring that a call builds: the outer path drawn by the loop from
  half the bore, and one hole whose radius is half the bore less the thickness.
\<close>

lemma viewer_profile:
  assumes "document w cid = Some c"
  shows "\<exists>v. fst (create3DRingViewer w cid pn b wd t wv) = Some v
    \<and> curves (ring_profile v) =
        curves (outer_edge (b / 2) (case wv of None \<Rightarrow> 16 | Some n \<Rightarrow> n) 0 new_Shape)
    \<and> holes (ring_profile v) =
        [Absarc 0 0 (b / 2 - (case t of None \<Rightarrow> 0.203 | Some x \<Rightarrow> x)) 0 (pi * 2) True]"
  using assms
  by (simp add: create3DRingViewer_def Let_def ring_profile_def scene_add_def
      outer_edge_holes new_Shape_def)

lemma viewer_world:
  assumes "document w cid = Some c"
  shows "snd (create3DRingViewer w cid pn b wd t wv) =
     w\<lparr>document := (document w)(cid \<mapsto>
          c\<lparr>style_position := ''relative'',
            childNodes := childNodes c
              @ [RendererCanvas (clientWidth c) (clientHeight c),
                 InfoDiv pn b wd (case t of None \<Rightarrow> 0.203 | Some x \<Rightarrow> x)
                   (case wv of None \<Rightarrow> 16 | Some n \<Rightarrow> n)]\<rparr>),
       resizeListeners := resizeListeners w @ [cid],
       frameRequests := frameRequests w + 1\<rparr>"
  using assms by (simp add: create3DRingViewer_def Let_def)

lemma viewer_defaults:
  "create3DRingViewer w cid pn b wd None None
     = create3DRingViewer w cid pn b wd (Some 0.203) (Some 16)"
  by (simp add: create3DRingViewer_def)

lemma generated_call:
  "invoke w (callback (snd (generateRing3D now pn b wd)))
     = create3DRingViewer w (''ring3d-'' @ string_of_nat now) pn b wd None None"
  by (simp add: generateRing3D_def invoke_def Let_def)

lemma clock_text: "string_of_nat 42 = ''42''"
  by code_simp

lemma page_container:
  "document page ''ring3d-42'' =
     Some \<lparr>clientWidth = 800, clientHeight = 400, style_position = [], childNodes = []\<rparr>"
  by (simp add: page_def)

lemma page_missing: "document page ''missing'' = None"
  by (simp add: page_def)

text \<open>
  C5. The sampling of the boundary is a deterministic function of the radius and the
  wave count alone: two calls of the viewer with the same bore and the same wave
  count, in any two pages, for any two existing containers, part numbers, widths and
  thicknesses, build profiles with identical outer point sequences.
\<close>

theorem outer_points_depend_on_bore_and_waves:
  assumes "document w1 cid1 = Some c1" and "document w2 cid2 = Some c2"
  shows "\<exists>v1 v2. fst (create3DRingViewer w1 cid1 pn1 bore wd1 t1 waves_arg) = Some v1
     \<and> fst (create3DRingViewer w2 cid2 pn2 bore wd2 t2 waves_arg) = Some v2
     \<and> path_points (ring_profile v1) = path_points (ring_profile v2)"
proof -
  from viewer_profile [OF assms(1), of pn1 bore wd1 t1 waves_arg]
  obtain v1 where v1: "fst (create3DRingViewer w1 cid1 pn1 bore wd1 t1 waves_arg) = Some v1"
    and p1: "curves (ring_profile v1) =
        curves (outer_edge (bore / 2) (case waves_arg of None \<Rightarrow> 16 | Some n \<Rightarrow> n) 0 new_Shape)"
    by blast
  from viewer_profile [OF assms(2), of pn2 bore wd2 t2 waves_arg]
  obtain v2 where v2: "fst (create3DRingViewer w2 cid2 pn2 bore wd2 t2 waves_arg) = Some v2"
    and p2: "curves (ring_profile v2) =
        curves (outer_edge (bore / 2) (case waves_arg of None \<Rightarrow> 16 | Some n \<Rightarrow> n) 0 new_Shape)"
    by blast
  from p1 p2 have "path_points (ring_profile v1) = path_points (ring_profile v2)"
    by (simp add: path_points_def)
  with v1 v2 show ?thesis by blast
qed

theorem outer_points_depend_on_bore_and_waves_witness:
  "document page ''ring3d-42'' \<noteq> None
   \<and> document (page\<lparr>frameRequests := 7\<rparr>) ''ring3d-42'' \<noteq> None
   \<and> (\<exists>v1 v2. fst (create3DRingViewer page ''ring3d-42'' ''TR-1'' 10 5 None (Some 3)) = Some v1
     \<and> fst (create3DRingViewer (page\<lparr>frameRequests := 7\<rparr>) ''ring3d-42'' ''TR-2'' 10 8
              (Some 1) (Some 3)) = Some v2
     \<and> path_points (ring_profile v1) = path_points (ring_profile v2))"
  using outer_points_depend_on_bore_and_waves
          [of page "''ring3d-42''" _ "page\<lparr>frameRequests := 7\<rparr>" "''ring3d-42''" _
              "''TR-1''" 10 5 None "Some 3" "''TR-2''" 8 "Some 1"]
  by (simp add: page_def)

text \<open>
  C6, as stated: the hole of the ring profile has radius \<open>bore / 2\<close>. It does not: a
  bore of 10 with a wall of 0.203 gives a hole of radius 4.797, not 5.
\<close>

theorem hole_radius_not_half_bore:
  "map_option hole_radii
     (fst (create3DRingViewer page ''ring3d-42'' ''TR-1'' 10 5 (Some 0.203) (Some 16)))
     = Some [4.797]
   \<and> map_option hole_radii
     (fst (create3DRingViewer page ''ring3d-42'' ''TR-1'' 10 5 (Some 0.203) (Some 16)))
     \<noteq> Some [10 / 2]"
  using viewer_profile [OF page_container, of "''TR-1''" 10 5 "Some 0.203" "Some 16"]
  by (auto simp add: hole_radii_def)

text \<open>
  C6, amended. The bore is the base outer diameter of the ring: for every bore \<open>b\<close> and
  wall thickness \<open>t\<close>, the outer path of the profile is sampled around the radius
  \<open>b / 2\<close>, and the only hole of the profile has radius \<open>b / 2 - t\<close>.
\<close>

theorem bore_is_outer_diameter:
  assumes "document w cid = Some c"
  shows "\<exists>v. fst (create3DRingViewer w cid pn b wd (Some t) waves_arg) = Some v
     \<and> hole_radii v = [b / 2 - t]
     \<and> path_points (ring_profile v) =
         path_points (outer_edge (b / 2) (case waves_arg of None \<Rightarrow> 16 | Some n \<Rightarrow> n) 0 new_Shape)"
  using viewer_profile [OF assms, of pn b wd "Some t" waves_arg]
  by (auto simp add: path_points_def hole_radii_def)

theorem bore_is_outer_diameter_witness:
  "document page ''ring3d-42'' \<noteq> None
   \<and> (\<exists>v. fst (create3DRingViewer page ''ring3d-42'' ''TR-1'' 10 5 (Some 0.203) (Some 16)) = Some v
     \<and> hole_radii v = [4.797]
     \<and> path_points (ring_profile v) = path_points (outer_edge 5 16 0 new_Shape))"
  using bore_is_outer_diameter [OF page_container, of "''TR-1''" 10 5 "0.203" "Some 16"]
  by (simp add: page_container)

text \<open>
  C7. When the lookup of the container gives \<open>null\<close>, the function returns at once with
  no value and leaves the page as it was: nothing is built and nothing is added to the
  document. It is the only way the function returns without handles.
\<close>

theorem missing_container_returns_nothing:
  "(document w cid = None \<longrightarrow> create3DRingViewer w cid pn b wd t wv = (None, w))
   \<and> (fst (create3DRingViewer w cid pn b wd t wv) = None \<longrightarrow> document w cid = None)"
  by (simp add: viewer_None viewer_result_None_iff)

theorem missing_container_returns_nothing_witness:
  "document page ''missing'' = None
   \<and> create3DRingViewer page ''missing'' ''TR-1'' 10 5 None None = (None, page)
   \<and> fst (create3DRingViewer page ''missing'' ''TR-1'' 10 5 None None) = None"
  using missing_container_returns_nothing [of page "''missing''" "''TR-1''" 10 5 None None]
  by (simp add: page_missing)

text \<open>
  C8. When the container exists, the function returns the bundle of handles: the scene
  with its six objects, the camera, the renderer, the controls, and the export action,
  which exports the ring mesh of that scene under the part number with the suffix
  \<open>.stl\<close>.
\<close>

theorem viewer_handles:
  assumes "document w cid = Some c"
  shows "\<exists>v w'. create3DRingViewer w cid pn b wd t wv = (Some v, w')
     \<and> background (scene v) = 0xf8f9fa
     \<and> children (scene v) =
         [AmbientLight 0xffffff 0.6,
          DirectionalLight 0xffffff 0.4 (50, 50, 50) True,
          stl_object (exportSTL v),
          LineSegments (EdgesGeometry (mesh_geometry (stl_object (exportSTL v))))
            (LineBasicMaterial 0x333333 1) (- pi / 2),
          GridHelper (b * 2) 20 0x888888 0xcccccc,
          AxesHelper b]
     \<and> (\<exists>g. stl_object (exportSTL v) =
           Mesh g (MeshPhongMaterial 0xaaaaaa 0xffffff 100 0.8 0.2 DoubleSide) (- pi / 2) True True)
     \<and> stl_download (exportSTL v) = pn @ ''.stl''
     \<and> fov (camera v) = 45 \<and> near (camera v) = 0.1 \<and> far (camera v) = 1000
     \<and> cam_position (camera v) = (b * 1.5, b * 1.5, b * 1.5)
     \<and> cam_lookAt (camera v) = Some (0, 0, 0)
     \<and> renderer v = \<lparr>antialias = True, canvas_size = (clientWidth c, clientHeight c),
                      shadowMap_enabled = True\<rparr>
     \<and> controls v = \<lparr>enableDamping = True, dampingFactor = 0.05, screenSpacePanning = False,
                      minDistance = b / 2, maxDistance = b * 5\<rparr>"
  using assms
  by (simp add: create3DRingViewer_def Let_def scene_add_def)

theorem viewer_handles_witness:
  "document page ''ring3d-42'' \<noteq> None
   \<and> (\<exists>v w'. create3DRingViewer page ''ring3d-42'' ''TR-1'' 10 5 None None = (Some v, w')
     \<and> length (children (scene v)) = 6
     \<and> stl_download (exportSTL v) = ''TR-1.stl''
     \<and> cam_position (camera v) = (15, 15, 15)
     \<and> canvas_size (renderer v) = (800, 400)
     \<and> minDistance (controls v) = 5 \<and> maxDistance (controls v) = 50)"
  using viewer_handles [OF page_container, of "''TR-1''" 10 5 None None]
  by (auto simp add: page_container)

section \<open>The deferred viewer of generateRing3D\<close>

text \<open>
  C9. For every part number, bore and width, the call that \<open>generateRing3D\<close> defers
  passes four arguments, so the viewer is built with the default wall thickness 0.203
  and the default wave count 16: the deferred call is the call with these two values
  given, and where the container exists the hole has radius \<open>bore / 2 - 0.203\<close>, the
  outer path is the sampling for 16 waves, and the overlay shows 0.203 and 16.
\<close>

theorem generateRing3D_uses_defaults:
  "delay (snd (generateRing3D now pn b wd)) = 100
   \<and> arg_thickness (callback (snd (generateRing3D now pn b wd))) = None
   \<and> arg_waves (callback (snd (generateRing3D now pn b wd))) = None
   \<and> invoke w (callback (snd (generateRing3D now pn b wd)))
       = create3DRingViewer w (''ring3d-'' @ string_of_nat now) pn b wd (Some 0.203) (Some 16)
   \<and> (\<forall>c. document w (''ring3d-'' @ string_of_nat now) = Some c \<longrightarrow>
        (\<exists>v w'. invoke w (callback (snd (generateRing3D now pn b wd))) = (Some v, w')
           \<and> holes (ring_profile v) = [Absarc 0 0 (b / 2 - 0.203) 0 (pi * 2) True]
           \<and> path_points (ring_profile v) = boundary_points (b / 2) 16
           \<and> document w' (''ring3d-'' @ string_of_nat now) =
               Some (c\<lparr>style_position := ''relative'',
                       childNodes := childNodes c
                         @ [RendererCanvas (clientWidth c) (clientHeight c),
                            InfoDiv pn b wd 0.203 16]\<rparr>)))"
proof -
  let ?cid = "''ring3d-'' @ string_of_nat now"
  let ?call = "callback (snd (generateRing3D now pn b wd))"
  have timer: "delay (snd (generateRing3D now pn b wd)) = 100
      \<and> arg_thickness ?call = None \<and> arg_waves ?call = None"
    by (simp add: generateRing3D_def Let_def)
  have run: "invoke w ?call = create3DRingViewer w ?cid pn b wd (Some 0.203) (Some 16)"
    by (simp only: generated_call viewer_defaults)
  have built: "\<exists>v w'. invoke w ?call = (Some v, w')
           \<and> holes (ring_profile v) = [Absarc 0 0 (b / 2 - 0.203) 0 (pi * 2) True]
           \<and> path_points (ring_profile v) = boundary_points (b / 2) 16
           \<and> document w' ?cid =
               Some (c\<lparr>style_position := ''relative'',
                       childNodes := childNodes c
                         @ [RendererCanvas (clientWidth c) (clientHeight c),
                            InfoDiv pn b wd 0.203 16]\<rparr>)"
    if c: "document w ?cid = Some c" for c
  proof -
    from viewer_profile [OF c, of pn b wd "Some 0.203" "Some 16"]
    obtain v where v: "fst (create3DRingViewer w ?cid pn b wd (Some 0.203) (Some 16)) = Some v"
      and cv: "curves (ring_profile v) = curves (outer_edge (b / 2) 16 0 new_Shape)"
      and hv: "holes (ring_profile v) = [Absarc 0 0 (b / 2 - 0.203) 0 (pi * 2) True]"
      by auto
    have pv: "path_points (ring_profile v) = boundary_points (b / 2) 16"
      using cv by (simp add: path_points_def boundary_points_def)
    have "invoke w ?call = (Some v, snd (create3DRingViewer w ?cid pn b wd (Some 0.203) (Some 16)))"
      using v run by (simp add: prod_eq_iff)
    moreover have "document (snd (create3DRingViewer w ?cid pn b wd (Some 0.203) (Some 16))) ?cid =
               Some (c\<lparr>style_position := ''relative'',
                       childNodes := childNodes c
                         @ [RendererCanvas (clientWidth c) (clientHeight c),
                            InfoDiv pn b wd 0.203 16]\<rparr>)"
      by (subst viewer_world [OF c]) simp
    ultimately show ?thesis
      using hv pv by blast
  qed
  from timer run built show ?thesis
    by blast
qed

theorem generateRing3D_uses_defaults_witness:
  "document page (''ring3d-'' @ string_of_nat 42) \<noteq> None
   \<and> (\<exists>v w'. invoke page (callback (snd (generateRing3D 42 ''TR-1'' 10 5))) = (Some v, w')
         \<and> holes (ring_profile v) = [Absarc 0 0 4.797 0 (pi * 2) True]
         \<and> length (path_points (ring_profile v)) = 17
         \<and> document w' ''ring3d-42'' =
             Some \<lparr>clientWidth = 800, clientHeight = 400, style_position = ''relative'',
                   childNodes = [RendererCanvas 800 400, InfoDiv ''TR-1'' 10 5 0.203 16]\<rparr>)"
proof -
  let ?c = "\<lparr>clientWidth = 800, clientHeight = 400, style_position = [], childNodes = []\<rparr>"
  have c: "document page (''ring3d-'' @ string_of_nat 42) = Some ?c"
    by (simp add: clock_text page_container)
  from generateRing3D_uses_defaults [of 42 "''TR-1''" 10 5 page] c
  obtain v w' where r: "invoke page (callback (snd (generateRing3D 42 ''TR-1'' 10 5))) = (Some v, w')"
    and h: "holes (ring_profile v) = [Absarc 0 0 (10 / 2 - 0.203) 0 (pi * 2) True]"
    and p: "path_points (ring_profile v) = boundary_points (10 / 2) 16"
    and d: "document w' (''ring3d-'' @ string_of_nat 42) =
              Some (?c\<lparr>style_position := ''relative'',
                      childNodes := childNodes ?c
                        @ [RendererCanvas (clientWidth ?c) (clientHeight ?c),
                           InfoDiv ''TR-1'' 10 5 0.203 16]\<rparr>)"
    by blast
  from h have h': "holes (ring_profile v) = [Absarc 0 0 4.797 0 (pi * 2) True]"
    by simp
  from p have p': "length (path_points (ring_profile v)) = 17"
    by (simp add: boundary_points_eq)
  from d have d': "document w' ''ring3d-42'' =
             Some \<lparr>clientWidth = 800, clientHeight = 400, style_position = ''relative'',
                   childNodes = [RendererCanvas 800 400, InfoDiv ''TR-1'' 10 5 0.203 16]\<rparr>"
    by (simp add: clock_text)
  from c have "document page (''ring3d-'' @ string_of_nat 42) \<noteq> None"
    by simp
  with r h' p' d' show ?thesis
    by blast
qed

end
